theory Spec2Isabelle
  imports Main "HOL-Library.Multiset" "HOL-Library.Sublist"
begin

section \<open>Data model (types.ts)\<close>

text \<open>
  Timestamps are produced by \<^verbatim>\<open>Date.toISOString()\<close> and compared through
  \<^verbatim>\<open>new Date(s).getTime()\<close>; a timestamp is modelled by that number, the
  milliseconds since the epoch.
\<close>

type_synonym timestamp = int

datatype UserRole = VIEWER | EDITOR | ADMIN

record User =
  u_id :: string
  username :: string
  role :: UserRole
  email :: string
  u_createdAt :: timestamp

datatype CredentialType = USERNAME_PASSWORD | SSH_KEY | PERSONAL_ACCESS_TOKEN

record Credential =
  c_id :: string
  c_name :: string
  c_type :: CredentialType
  c_username :: "string option"
  c_createdAt :: timestamp

datatype SyncStatus = IDLE | SYNCING | SUCCESS | FAILED

record SyncJob =
  j_id :: string
  j_name :: string
  sourceUrl :: string
  sourceCredentialId :: "string option"
  destinationUrl :: string
  destinationCredentialId :: "string option"
  branchFilter :: string
  tagFilter :: string
  cronSchedule :: string
  enabled :: bool
  lastRunAt :: "timestamp option"
  lastRunStatus :: SyncStatus
  lastRunMessage :: "string option"

record JobRunStats =
  branchesSynced :: int
  tagsSynced :: int
  commitsPushed :: int
  filesChanged :: int
  bytesTransferred :: int

text \<open>
  A log entry as it travels: the stored entries carry the levels INFO, WARN, ERROR and
  DEBUG, the live-log stream adds COMPLETE and FAILED, and the stream handler parses
  whatever JSON arrives, so the level is a string.
\<close>

record JobRunLogEntry =
  timestamp :: timestamp
  level :: string
  l_message :: string

record JobRun =
  r_id :: string
  jobId :: string
  startedAt :: timestamp
  completedAt :: "timestamp option"
  status :: SyncStatus
  message :: string
  stats :: "JobRunStats option"
  logs :: "JobRunLogEntry list"

record AppSettings =
  gitTimeout :: int
  maxRetries :: int
  logRetentionDays :: int

section \<open>The demo store (MockStore)\<close>

text \<open>
  The fields of the class. \<open>userPasswords\<close> holds the own properties of the object
  \<^verbatim>\<open>userId -> password\<close>;
  \<open>session_user\<close> is the entry \<^verbatim>\<open>gs_current_user\<close> of the session storage that
  \<^verbatim>\<open>login\<close> and \<^verbatim>\<open>logout\<close> write. \<^verbatim>\<open>save()\<close> copies the fields to the
  local storage and changes none of them, so it is the identity on this state.
\<close>

record MockStore =
  users :: "User list"
  userPasswords :: "string \<rightharpoonup> string"
  credentials :: "Credential list"
  jobs :: "SyncJob list"
  jobRuns :: "JobRun list"
  settings :: AppSettings
  currentUser :: "User option"
  session_user :: "User option"

datatype error = Error string

subsection \<open>Reading a property\<close>

text \<open>
  \<open>userPasswords\<close> is a plain object, made by an object literal or by
  \<^verbatim>\<open>JSON.parse\<close>; the field of the record holds its own properties. A read
  \<^verbatim>\<open>obj[key]\<close> finds an own property first and goes on to \<^verbatim>\<open>Object.prototype\<close>,
  whose properties are functions and, under \<^verbatim>\<open>__proto__\<close>, the prototype itself;
  only then is it \<^verbatim>\<open>undefined\<close>. A value read from the object is therefore
  \<^verbatim>\<open>undefined\<close>, a string or an inherited function or object.
\<close>

datatype js_value = Undefined | Str string | Inherited

definition Object_prototype :: "string list" where
  "Object_prototype =
     [''constructor'', ''__defineGetter__'', ''__defineSetter__'', ''hasOwnProperty'',
      ''__lookupGetter__'', ''__lookupSetter__'', ''isPrototypeOf'', ''propertyIsEnumerable'',
      ''toString'', ''valueOf'', ''__proto__'', ''toLocaleString'']"

definition get_property :: "(string \<rightharpoonup> string) \<Rightarrow> string \<Rightarrow> js_value" where
  "get_property obj key =
     (case obj key of
        Some v \<Rightarrow> Str v
      | None \<Rightarrow> if key \<in> set Object_prototype then Inherited else Undefined)"

text \<open>
  The truth value of a condition: \<^verbatim>\<open>undefined\<close> and the empty string are falsy, a
  function or an object is truthy.
\<close>

definition truthy :: "js_value \<Rightarrow> bool" where
  "truthy v = (case v of Undefined \<Rightarrow> False | Str p \<Rightarrow> p \<noteq> [] | Inherited \<Rightarrow> True)"

text \<open>An optional string: \<^verbatim>\<open>undefined\<close> where it is absent.\<close>

definition optional :: "string option \<Rightarrow> js_value" where
  "optional x = (case x of None \<Rightarrow> Undefined | Some p \<Rightarrow> Str p)"

subsection \<open>login\<close>

text \<open>
  \<^verbatim>\<open>users.find(u => u.username === username)\<close> is the first user of that name. The
  guard \<^verbatim>\<open>storedPass && storedPass !== password\<close> tests the value read under the
  user's id for truthiness first and then compares it with the supplied password, which
  is optional (\<^verbatim>\<open>password?: string\<close>): a string or \<^verbatim>\<open>undefined\<close>, never a
  function or an object. A throw leaves the store as it was.
\<close>

definition login :: "string \<Rightarrow> string option \<Rightarrow> MockStore \<Rightarrow> (error + User) \<times> MockStore" where
  "login uname password s =
     (case find (\<lambda>u. username u = uname) (users s) of
        None \<Rightarrow> (Inl (Error ''Invalid username or password.''), s)
      | Some user \<Rightarrow>
          (let storedPass = get_property (userPasswords s) (u_id user) in
           if truthy storedPass
              \<and> storedPass \<noteq> optional password
           then (Inl (Error ''Invalid username or password.''), s)
           else (Inr user, s\<lparr>currentUser := Some user, session_user := Some user\<rparr>)))"

subsection \<open>deleteJob, getJobRuns, getActiveRun\<close>

definition deleteJob :: "string \<Rightarrow> MockStore \<Rightarrow> MockStore" where
  "deleteJob i s =
     s\<lparr>jobs := filter (\<lambda>j. j_id j \<noteq> i) (jobs s),
       jobRuns := filter (\<lambda>r. jobId r \<noteq> i) (jobRuns s)\<rparr>"

text \<open>
  \<^verbatim>\<open>filter\<close> builds a new array, which \<^verbatim>\<open>sort\<close> then orders in place with the
  comparator \<^verbatim>\<open>time(b) - time(a)\<close>; the sort of an array is stable, so it is the stable
  insertion sort on the negated start time. The store is returned as it was.
\<close>

definition getJobRuns :: "string \<Rightarrow> MockStore \<Rightarrow> JobRun list \<times> MockStore" where
  "getJobRuns i s =
     (sort_key (\<lambda>r. - startedAt r) (filter (\<lambda>r. jobId r = i) (jobRuns s)), s)"

definition getActiveRun :: "string \<Rightarrow> MockStore \<Rightarrow> JobRun option" where
  "getActiveRun i s = find (\<lambda>r. jobId r = i \<and> status r = SYNCING) (jobRuns s)"

subsection \<open>Initial data\<close>

text \<open>The bootstrapping constants; \<open>now\<close> is the \<^verbatim>\<open>Date.now()\<close> of the page load.\<close>

definition INITIAL_USERS :: "timestamp \<Rightarrow> User list" where
  "INITIAL_USERS now =
     [\<lparr>u_id = ''1'', username = ''admin'', role = ADMIN, email = ''admin@local.host'', u_createdAt = now\<rparr>,
      \<lparr>u_id = ''2'', username = ''dev_lead'', role = EDITOR, email = ''dev@local.host'', u_createdAt = now\<rparr>,
      \<lparr>u_id = ''3'', username = ''auditor'', role = VIEWER, email = ''audit@local.host'', u_createdAt = now\<rparr>]"

definition INITIAL_PASSWORDS :: "string \<rightharpoonup> string" where
  "INITIAL_PASSWORDS = [''1'' \<mapsto> ''admin'', ''2'' \<mapsto> ''password'', ''3'' \<mapsto> ''password'']"

definition INITIAL_CREDS :: "timestamp \<Rightarrow> Credential list" where
  "INITIAL_CREDS now =
     [\<lparr>c_id = ''c1'', c_name = ''GitHub Enterprise Read'', c_type = PERSONAL_ACCESS_TOKEN,
       c_username = Some ''svc_reader'', c_createdAt = now\<rparr>,
      \<lparr>c_id = ''c2'', c_name = ''GitLab Production Write'', c_type = SSH_KEY,
       c_username = Some ''git'', c_createdAt = now\<rparr>]"

definition INITIAL_JOBS :: "timestamp \<Rightarrow> SyncJob list" where
  "INITIAL_JOBS now =
     [\<lparr>j_id = ''j1'', j_name = ''Core Backend Mirror'',
       sourceUrl = ''https://github.com/company/core-backend.git'',
       sourceCredentialId = Some ''c1'',
       destinationUrl = ''git@gitlab.internal:infrastructure/core-mirror.git'',
       destinationCredentialId = Some ''c2'',
       branchFilter = ''main|production'', tagFilter = ''v.*'',
       cronSchedule = ''*/15 * * * *'', enabled = True,
       lastRunAt = Some (now - 1000 * 60 * 12), lastRunStatus = SUCCESS,
       lastRunMessage = Some ''Synced 5 commits, 1 tag.''\<rparr>,
      \<lparr>j_id = ''j2'', j_name = ''Frontend Release Sync'',
       sourceUrl = ''https://github.com/company/frontend-app.git'',
       sourceCredentialId = Some ''c1'',
       destinationUrl = ''https://bitbucket.org/partner/frontend-delivery.git'',
       destinationCredentialId = Some [],
       branchFilter = ''release/.*'', tagFilter = [],
       cronSchedule = ''0 2 * * *'', enabled = True,
       lastRunAt = Some (now - 1000 * 60 * 60 * 5), lastRunStatus = FAILED,
       lastRunMessage = Some ''Error: Remote rejected master (pre-receive hook declined).''\<rparr>]"

text \<open>The store of a first page load (empty local storage), before any history is generated.\<close>

definition initial_store :: "timestamp \<Rightarrow> MockStore" where
  "initial_store now =
     \<lparr>users = INITIAL_USERS now, userPasswords = INITIAL_PASSWORDS,
      credentials = INITIAL_CREDS now, jobs = INITIAL_JOBS now, jobRuns = [],
      settings = \<lparr>gitTimeout = 300, maxRetries = 3, logRetentionDays = 14\<rparr>,
      currentUser = None, session_user = None\<rparr>"

subsection \<open>Random draws and text\<close>

text \<open>
  The store draws its numbers with \<^verbatim>\<open>Math.random()\<close>. Every random expression of
  the source is a parameter of the model, named after what it is assigned to: the whole
  number that \<^verbatim>\<open>Math.floor(Math.random() * n)\<close> gives, one of \<open>0, ..., n - 1\<close>, the
  truth value of a comparison such as \<^verbatim>\<open>Math.random() > 0.3\<close>, the text of an id or
  of a formatted size.
\<close>

text \<open>The decimal text a template string gives a whole number.\<close>

fun show_nat :: "nat \<Rightarrow> string" where
  "show_nat n =
     (if n < 10 then [''0123456789'' ! n]
      else show_nat (n div 10) @ [''0123456789'' ! (n mod 10)])"

declare show_nat.simps [simp del]

definition show_int :: "int \<Rightarrow> string" where
  "show_int i = (if i < 0 then CHR ''-'' # show_nat (nat (- i)) else show_nat (nat i))"

definition errors :: "string list" where
  "errors =
     [''Connection timed out while pushing to destination'',
      ''Authentication failed: Invalid credentials'',
      ''Remote rejected push: pre-receive hook declined'',
      ''Network error: Unable to resolve host'',
      ''Permission denied: Insufficient access rights'']"

text \<open>
  \<^verbatim>\<open>errors[Math.floor(Math.random() * errors.length)]\<close>, with the drawn index \<open>i\<close>. A
  drawn index is in range; outside it the array read gives \<^verbatim>\<open>undefined\<close>, written
  here as the empty text.
\<close>

definition pick_error :: "int \<Rightarrow> string" where
  "pick_error i = (if 0 \<le> i \<and> i < int (length errors) then errors ! nat i else [])"

definition log_entry :: "timestamp \<Rightarrow> string \<Rightarrow> string \<Rightarrow> JobRunLogEntry" where
  "log_entry t lv m = \<lparr>timestamp = t, level = lv, l_message = m\<rparr>"

subsection \<open>createMockJobRun\<close>

text \<open>
  The draws of one call, in the order of the source: \<open>m_branches\<close> is
  \<^verbatim>\<open>Math.floor(Math.random() * 5)\<close>, \<open>m_tags\<close> is \<^verbatim>\<open>Math.floor(Math.random() * 3)\<close>,
  \<open>m_commits\<close> the floor of a draw times 20, \<open>m_files\<close> times 50, \<open>m_error\<close> times
  the number of error texts, \<open>m_bytes\<close> times 5000000; \<open>m_mb\<close> is the text of
  \<^verbatim>\<open>(Math.random() * 5 + 0.5).toFixed(2)\<close> and \<open>m_id\<close> the text of
  \<^verbatim>\<open>Math.random().toString(36).substr(2, 9)\<close>.
\<close>

record MockRunDraws =
  m_branches :: int
  m_tags :: int
  m_commits :: int
  m_files :: int
  m_mb :: string
  m_error :: int
  m_id :: string
  m_bytes :: int

definition createMockJobRun ::
    "string \<Rightarrow> timestamp \<Rightarrow> bool \<Rightarrow> int \<Rightarrow> MockRunDraws \<Rightarrow> JobRun" where
  "createMockJobRun job startTime success durationSecs d =
     (let endTime = startTime + durationSecs * 1000;
          branches = m_branches d + 1;
          tags = m_tags d;
          commits = (if success then m_commits d + 1 else 0);
          files = (if success then m_files d + commits else 0);
          t0 = startTime;
          l0 = [log_entry t0 ''INFO'' ''Starting sync job...''];
          t1 = t0 + 500;
          l1 = l0 @ [log_entry t1 ''INFO'' ''Connecting to source repository...''];
          t2 = t1 + 1200;
          l2 = l1 @ [log_entry t2 ''INFO'' ''Fetching remote refs...''];
          t3 = t2 + 800;
          l3 = l2 @ [log_entry t3 ''DEBUG''
                 (''Found '' @ show_int branches @ '' branches matching filter'')];
          t4 = t3 + 300;
          l4 = (if tags > 0
                then l3 @ [log_entry t4 ''DEBUG''
                       (''Found '' @ show_int tags @ '' tags matching filter'')]
                else l3);
          t5 = (if tags > 0 then t4 + 200 else t4);
          l5 = l4 @ [log_entry t5 ''INFO'' ''Connecting to destination repository...''];
          t6 = t5 + 1000;
          l6 = (if success
                then l5 @ [log_entry t6 ''INFO'' (''Pushing '' @ show_int commits @ '' commits...''),
                           log_entry (t6 + 2000) ''INFO''
                             (''Transferred '' @ show_int files @ '' files ('' @ m_mb d @ '' MB)''),
                           log_entry endTime ''INFO''
                             (''Sync completed successfully in '' @ show_int durationSecs @ ''s'')]
                else l5 @ [log_entry t6 ''WARN'' ''Push operation taking longer than expected...'',
                           log_entry endTime ''ERROR'' (pick_error (m_error d))])
      in \<lparr>r_id = m_id d,
          jobId = job,
          startedAt = startTime,
          completedAt = Some endTime,
          status = (if success then SUCCESS else FAILED),
          message = (if success
                     then ''Synced '' @ show_int branches @ '' branches, '' @ show_int tags
                          @ '' tags, '' @ show_int commits @ '' commits''
                     else l_message (last l6)),
          stats = (if success
                   then Some \<lparr>branchesSynced = branches, tagsSynced = tags,
                              commitsPushed = commits, filesChanged = files,
                              bytesTransferred = m_bytes d + 100000\<rparr>
                   else None),
          logs = l6\<rparr>)"

subsection \<open>generateInitialJobHistory\<close>

text \<open>
  The constructor fills an empty history: for every job a drawn number of runs (three
  to ten), each with a drawn start time, outcome and duration, then sorts the runs by
  start time, latest first. The draws of one run: \<open>h_startTime\<close> is the value of
  \<^verbatim>\<open>new Date(Date.now() - hoursAgo * 60 * 60 * 1000)\<close>, \<open>h_success\<close> is
  \<^verbatim>\<open>Math.random() > 0.2\<close>, \<open>h_duration\<close> is \<^verbatim>\<open>Math.floor(Math.random() * 45)\<close>.
  The parameter holds, for each job in order, the draws of its runs.
\<close>

record HistoryDraws =
  h_startTime :: timestamp
  h_success :: bool
  h_duration :: int
  h_run :: MockRunDraws

definition generateInitialJobHistory :: "HistoryDraws list list \<Rightarrow> MockStore \<Rightarrow> MockStore" where
  "generateInitialJobHistory draws s =
     (if jobRuns s \<noteq> [] then s
      else s\<lparr>jobRuns :=
             sort_key (\<lambda>r. - startedAt r)
               (concat (map (\<lambda>(job, hs).
                               map (\<lambda>h. createMockJobRun (j_id job) (h_startTime h) (h_success h)
                                           (h_duration h + 5) (h_run h)) hs)
                            (zip (jobs s) draws)))\<rparr>)"

subsection \<open>updateJob\<close>

text \<open>
  \<^verbatim>\<open>Partial<SyncJob>\<close>: each field present or absent. The spread
  \<^verbatim>\<open>{ ...j, ...updates }\<close> overwrites the fields that are present.
\<close>

record SyncJobPartial =
  p_id :: "string option"
  p_name :: "string option"
  p_sourceUrl :: "string option"
  p_sourceCredentialId :: "string option option"
  p_destinationUrl :: "string option"
  p_destinationCredentialId :: "string option option"
  p_branchFilter :: "string option"
  p_tagFilter :: "string option"
  p_cronSchedule :: "string option"
  p_enabled :: "bool option"
  p_lastRunAt :: "timestamp option option"
  p_lastRunStatus :: "SyncStatus option"
  p_lastRunMessage :: "string option option"

definition no_updates :: SyncJobPartial where
  "no_updates =
     \<lparr>p_id = None, p_name = None, p_sourceUrl = None, p_sourceCredentialId = None,
      p_destinationUrl = None, p_destinationCredentialId = None, p_branchFilter = None,
      p_tagFilter = None, p_cronSchedule = None, p_enabled = None, p_lastRunAt = None,
      p_lastRunStatus = None, p_lastRunMessage = None\<rparr>"

definition or_else :: "'a option \<Rightarrow> 'a \<Rightarrow> 'a" where
  "or_else u old = (case u of None \<Rightarrow> old | Some v \<Rightarrow> v)"

definition spread :: "SyncJob \<Rightarrow> SyncJobPartial \<Rightarrow> SyncJob" where
  "spread j u =
     \<lparr>j_id = or_else (p_id u) (j_id j),
      j_name = or_else (p_name u) (j_name j),
      sourceUrl = or_else (p_sourceUrl u) (sourceUrl j),
      sourceCredentialId = or_else (p_sourceCredentialId u) (sourceCredentialId j),
      destinationUrl = or_else (p_destinationUrl u) (destinationUrl j),
      destinationCredentialId = or_else (p_destinationCredentialId u) (destinationCredentialId j),
      branchFilter = or_else (p_branchFilter u) (branchFilter j),
      tagFilter = or_else (p_tagFilter u) (tagFilter j),
      cronSchedule = or_else (p_cronSchedule u) (cronSchedule j),
      enabled = or_else (p_enabled u) (enabled j),
      lastRunAt = or_else (p_lastRunAt u) (lastRunAt j),
      lastRunStatus = or_else (p_lastRunStatus u) (lastRunStatus j),
      lastRunMessage = or_else (p_lastRunMessage u) (lastRunMessage j)\<rparr>"

definition updateJob :: "string \<Rightarrow> SyncJobPartial \<Rightarrow> MockStore \<Rightarrow> MockStore" where
  "updateJob i u s = s\<lparr>jobs := map (\<lambda>j. if j_id j = i then spread j u else j) (jobs s)\<rparr>"

subsection \<open>triggerJob and its timers\<close>

text \<open>
  \<^verbatim>\<open>triggerJob\<close> adds a run at the head of \<open>jobRuns\<close> and registers one
  \<^verbatim>\<open>setTimeout\<close> callback per log message; the callbacks run later, one at a time,
  between other operations of the store. The state of the page is therefore the store
  together with the callbacks that have not run yet and the bodies of the
  \<^verbatim>\<open>updateJob\<close> calls that were started without \<^verbatim>\<open>await\<close> and are still in
  their delay.
\<close>

record LogMsg =
  delay :: int
  lm_level :: string
  lm_message :: string

text \<open>What a callback's closure holds.\<close>

record Timer =
  t_totalDelay :: int
  t_runId :: string
  t_jobId :: string
  t_logMsg :: LogMsg
  t_index :: nat
  t_count :: nat
  t_success :: bool
  t_startTime :: timestamp

record System =
  store :: MockStore
  timers :: "Timer list"
  deferred :: "(string \<times> SyncJobPartial) list"

text \<open>
  The draws of one call of \<^verbatim>\<open>triggerJob\<close>: \<open>d_success\<close> is
  \<^verbatim>\<open>Math.random() > 0.3\<close>, \<open>d_found\<close> is \<^verbatim>\<open>Math.floor(Math.random() * 5)\<close>,
  \<open>d_commits\<close> the floor of a draw times 20, \<open>d_files\<close> times 50, \<open>d_error\<close> times
  the number of error texts.
\<close>

record TriggerDraws =
  d_runId :: string
  d_success :: bool
  d_found :: int
  d_commits :: int
  d_files :: int
  d_mb :: string
  d_error :: int

definition logMessages :: "TriggerDraws \<Rightarrow> LogMsg list" where
  "logMessages d =
     [\<lparr>delay = 500, lm_level = ''INFO'', lm_message = ''Connecting to source repository...''\<rparr>,
      \<lparr>delay = 1200, lm_level = ''INFO'', lm_message = ''Fetching remote refs...''\<rparr>,
      \<lparr>delay = 800, lm_level = ''DEBUG'', lm_message =
         ''Found '' @ show_int (d_found d + 1) @ '' branches matching filter''\<rparr>,
      \<lparr>delay = 500, lm_level = ''INFO'', lm_message = ''Connecting to destination repository...''\<rparr>,
      \<lparr>delay = 1000, lm_level = ''INFO'', lm_message = ''Analyzing changes...''\<rparr>]
     @ (if d_success d
        then (let commits = d_commits d + 1;
                  files = d_files d + commits
              in [\<lparr>delay = 1500, lm_level = ''INFO'', lm_message =
                     ''Pushing '' @ show_int commits @ '' commits...''\<rparr>,
                  \<lparr>delay = 2000, lm_level = ''INFO'', lm_message =
                     ''Transferred '' @ show_int files @ '' files ('' @ d_mb d @ '' MB)''\<rparr>,
                  \<lparr>delay = 500, lm_level = ''INFO'', lm_message = ''Sync completed successfully''\<rparr>])
        else [\<lparr>delay = 1500, lm_level = ''WARN'', lm_message =
                 ''Push operation taking longer than expected...''\<rparr>,
              \<lparr>delay = 2000, lm_level = ''ERROR'', lm_message = pick_error (d_error d)\<rparr>])"

text \<open>
  The \<^verbatim>\<open>forEach\<close> over the log messages: \<open>totalDelay\<close> is its value before the
  message, \<open>idx\<close> its index, \<open>n\<close> the length of the whole array.
\<close>

fun schedule ::
    "string \<Rightarrow> string \<Rightarrow> bool \<Rightarrow> timestamp \<Rightarrow> nat \<Rightarrow> int \<Rightarrow> nat \<Rightarrow> LogMsg list \<Rightarrow> Timer list" where
  "schedule rid job success startTime n totalDelay idx [] = []"
| "schedule rid job success startTime n totalDelay idx (m # ms) =
     \<lparr>t_totalDelay = totalDelay + delay m, t_runId = rid, t_jobId = job, t_logMsg = m,
      t_index = idx, t_count = n, t_success = success, t_startTime = startTime\<rparr>
     # schedule rid job success startTime n (totalDelay + delay m) (Suc idx) ms"

definition triggerJob :: "string \<Rightarrow> timestamp \<Rightarrow> TriggerDraws \<Rightarrow> System \<Rightarrow> string \<times> System" where
  "triggerJob i startTime d sys =
     (let runId = d_runId d;
          newRun = \<lparr>r_id = runId, jobId = i, startedAt = startTime, completedAt = None,
                    status = SYNCING, message = ''Sync started manually...'', stats = None,
                    logs = [log_entry startTime ''INFO'' ''Sync job triggered manually'']\<rparr>;
          s1 = (store sys)\<lparr>jobRuns := newRun # jobRuns (store sys)\<rparr>;
          started = (i, no_updates\<lparr>p_lastRunStatus := Some SYNCING,
                                    p_lastRunMessage := Some (Some ''Sync started manually...'')\<rparr>);
          success = d_success d;
          msgs = logMessages d
      in (runId,
          sys\<lparr>store := s1,
              timers := timers sys @ schedule runId i success startTime (length msgs) 0 0 msgs,
              deferred := deferred sys @ [started]\<rparr>))"

text \<open>
  The draws of the last callback of a successful run (the floors of a draw times 5, 3,
  20, 50 and 5000000), and the body of a callback. \<open>now\<close>
  is the \<^verbatim>\<open>new Date()\<close> of the log entry, \<open>endTime\<close> the later \<^verbatim>\<open>new Date()\<close> of the
  completion. \<^verbatim>\<open>find\<close> returns the first run of that id, an object of the array, so
  the assignments change that element; \<^verbatim>\<open>Math.round\<close> rounds a half up.
\<close>

record FinalDraws =
  f_branches :: int
  f_tags :: int
  f_commits :: int
  f_files :: int
  f_bytes :: int

fun update_first :: "('a \<Rightarrow> bool) \<Rightarrow> ('a \<Rightarrow> 'a) \<Rightarrow> 'a list \<Rightarrow> 'a list" where
  "update_first P f [] = []"
| "update_first P f (x # xs) = (if P x then f x # xs else x # update_first P f xs)"

fun remove_first :: "('a \<Rightarrow> bool) \<Rightarrow> 'a list \<Rightarrow> 'a list" where
  "remove_first P [] = []"
| "remove_first P (x # xs) = (if P x then xs else x # remove_first P xs)"

definition complete_run :: "Timer \<Rightarrow> timestamp \<Rightarrow> FinalDraws \<Rightarrow> JobRun \<Rightarrow> JobRun" where
  "complete_run t endTime fd run =
     (let durationSecs = (endTime - t_startTime t + 500) div 1000;
          run1 = run\<lparr>status := (if t_success t then SUCCESS else FAILED),
                     completedAt := Some endTime\<rparr>
      in if t_success t
         then (let branches = f_branches fd + 1;
                   tags = f_tags fd;
                   commits = f_commits fd + 1;
                   files = f_files fd + commits
               in run1\<lparr>stats := Some \<lparr>branchesSynced = branches, tagsSynced = tags,
                                       commitsPushed = commits, filesChanged = files,
                                       bytesTransferred = f_bytes fd + 100000\<rparr>,
                       message := ''Synced '' @ show_int branches @ '' branches, ''
                                  @ show_int tags @ '' tags, '' @ show_int commits
                                  @ '' commits in '' @ show_int durationSecs @ ''s''\<rparr>)
         else run1)"

definition is_last :: "Timer \<Rightarrow> bool" where
  "is_last t = (int (t_index t) = int (t_count t) - 1)"

definition callback_run :: "Timer \<Rightarrow> timestamp \<Rightarrow> timestamp \<Rightarrow> FinalDraws \<Rightarrow> JobRun \<Rightarrow> JobRun" where
  "callback_run t now endTime fd run =
     (let run1 = run\<lparr>logs := logs run @ [log_entry now (lm_level (t_logMsg t)) (lm_message (t_logMsg t))],
                     message := lm_message (t_logMsg t)\<rparr>
      in if is_last t then complete_run t endTime fd run1 else run1)"

definition callback ::
    "Timer \<Rightarrow> timestamp \<Rightarrow> timestamp \<Rightarrow> FinalDraws \<Rightarrow> MockStore
       \<Rightarrow> MockStore \<times> (string \<times> SyncJobPartial) list" where
  "callback t now endTime fd s =
     (case find (\<lambda>r. r_id r = t_runId t) (jobRuns s) of
        None \<Rightarrow> (s, [])
      | Some run \<Rightarrow>
          (let run' = callback_run t now endTime fd run;
               s' = s\<lparr>jobRuns := update_first (\<lambda>r. r_id r = t_runId t)
                                   (callback_run t now endTime fd) (jobRuns s)\<rparr>
           in if is_last t
              then (s', [(t_jobId t,
                          no_updates\<lparr>p_lastRunStatus := Some (status run'),
                                     p_lastRunAt := Some (Some endTime),
                                     p_lastRunMessage := Some (Some (message run'))\<rparr>)])
              else (s', [])))"

subsection \<open>The constructor and a reload of the page\<close>

text \<open>
  \<^verbatim>\<open>window.env\<close>, where the container has set it, holds texts for the name and the
  password of the user \<open>1\<close>; an absent or empty text is falsy.
  \<^verbatim>\<open>applyEnvOverrides\<close> writes the name into the first user of id \<open>1\<close> and the
  password into the object of passwords.
\<close>

record Env =
  ADMIN_USERNAME :: "string option"
  ADMIN_PASSWORD :: "string option"

definition applyEnvOverrides :: "Env option \<Rightarrow> MockStore \<Rightarrow> MockStore" where
  "applyEnvOverrides env s =
     (case env of
        None \<Rightarrow> s
      | Some e \<Rightarrow>
          (let s1 = (if truthy (optional (ADMIN_USERNAME e))
                     then s\<lparr>users := update_first (\<lambda>u. u_id u = ''1'')
                                        (\<lambda>u. u\<lparr>username := the (ADMIN_USERNAME e)\<rparr>) (users s)\<rparr>
                     else s)
           in if truthy (optional (ADMIN_PASSWORD e))
              then s1\<lparr>userPasswords := (userPasswords s1)(''1'' \<mapsto> the (ADMIN_PASSWORD e))\<rparr>
              else s1))"

text \<open>
  The module builds its one store when the page loads it: \<^verbatim>\<open>load()\<close> takes the
  fields from the local storage, then the overrides and the history follow. No
  callback and no delayed update exists yet. \<open>loaded\<close> is what \<^verbatim>\<open>load()\<close> has read.
\<close>

definition page_load :: "MockStore \<Rightarrow> System" where
  "page_load s = \<lparr>store = s, timers = [], deferred = []\<rparr>"

definition constructor :: "Env option \<Rightarrow> HistoryDraws list list \<Rightarrow> MockStore \<Rightarrow> System" where
  "constructor env draws loaded =
     page_load (generateInitialJobHistory draws (applyEnvOverrides env loaded))"

text \<open>
  A reload of the page, which the settings page itself asks for when the demo mode is
  switched (\<^verbatim>\<open>window.location.reload()\<close>): the callbacks and the delayed updates of
  the old page are gone with it, and the constructor runs again. \<^verbatim>\<open>triggerJob\<close>,
  each callback and every public method that assigns to a field call \<^verbatim>\<open>save()\<close>
  before they return, so \<^verbatim>\<open>load()\<close> reads the fields of the store as they are; the
  current user is not among them, the session storage stays. Only the overrides of a
  constructor can be unsaved; \<open>env\<close> is the \<^verbatim>\<open>window.env\<close> of the deployment, the
  same at every load, and writing the same overrides again gives the same fields.
\<close>

definition reload :: "Env option \<Rightarrow> HistoryDraws list list \<Rightarrow> System \<Rightarrow> System" where
  "reload env draws sys = constructor env draws ((store sys)\<lparr>currentUser := None\<rparr>)"

subsection \<open>The operations of a page\<close>

text \<open>
  The operations of the page on this state. The callbacks of one run were registered
  together with growing delays, so they run in the order of their indices;
  \<open>Fire rid\<close> runs the earliest callback of run \<open>rid\<close> that is still waiting. Callbacks
  of different runs, deletions, further triggers and reloads interleave freely.
\<close>

datatype Op =
    Trigger string timestamp TriggerDraws
  | Fire string timestamp timestamp FinalDraws
  | Delete string
  | RunDeferred
  | Reload "Env option" "HistoryDraws list list"

definition fire :: "string \<Rightarrow> timestamp \<Rightarrow> timestamp \<Rightarrow> FinalDraws \<Rightarrow> System \<Rightarrow> System" where
  "fire rid now endTime fd sys =
     (case find (\<lambda>t. t_runId t = rid) (timers sys) of
        None \<Rightarrow> sys
      | Some t \<Rightarrow>
          (let (s', ups) = callback t now endTime fd (store sys)
           in sys\<lparr>store := s',
                  timers := remove_first (\<lambda>t. t_runId t = rid) (timers sys),
                  deferred := deferred sys @ ups\<rparr>))"

definition run_deferred :: "System \<Rightarrow> System" where
  "run_deferred sys =
     (case deferred sys of
        [] \<Rightarrow> sys
      | (i, u) # rest \<Rightarrow> sys\<lparr>store := updateJob i u (store sys), deferred := rest\<rparr>)"

fun apply_op :: "Op \<Rightarrow> System \<Rightarrow> System" where
  "apply_op (Trigger i startTime d) sys = snd (triggerJob i startTime d sys)"
| "apply_op (Fire rid now endTime fd) sys = fire rid now endTime fd sys"
| "apply_op (Delete i) sys = sys\<lparr>store := deleteJob i (store sys)\<rparr>"
| "apply_op RunDeferred sys = run_deferred sys"
| "apply_op (Reload env draws) sys = reload env draws sys"

definition run_ops :: "Op list \<Rightarrow> System \<Rightarrow> System" where
  "run_ops ops sys = foldl (\<lambda>st op. apply_op op st) sys ops"

subsection \<open>A sample session\<close>

text \<open>
  Draws and operations of one manual sync of the job \<open>j2\<close> of the initial data, whose
  tag filter is empty: the trigger, then its eight callbacks.
\<close>

definition demo_draws :: "string \<Rightarrow> TriggerDraws" where
  "demo_draws rid =
     \<lparr>d_runId = rid, d_success = True, d_found = 2, d_commits = 10,
      d_files = 25, d_mb = ''3.00'', d_error = 2\<rparr>"

definition demo_final :: FinalDraws where
  "demo_final =
     \<lparr>f_branches = 2, f_tags = 2, f_commits = 10, f_files = 25, f_bytes = 2500000\<rparr>"

definition demo_ops :: "Op list" where
  "demo_ops =
     [Trigger ''j2'' 0 (demo_draws ''r1''),
      Fire ''r1'' 500 500 demo_final, Fire ''r1'' 1700 1700 demo_final,
      Fire ''r1'' 2500 2500 demo_final, Fire ''r1'' 3000 3000 demo_final,
      Fire ''r1'' 4000 4000 demo_final, Fire ''r1'' 5500 5500 demo_final,
      Fire ''r1'' 7500 7500 demo_final]"

definition demo_system :: System where
  "demo_system = run_ops demo_ops (page_load (initial_store 0))"

text \<open>
  The draws of a first page load: three runs for each of the two initial jobs, the
  latest run of \<open>j1\<close> a success with the shortest duration.
\<close>

definition demo_mock_draws :: MockRunDraws where
  "demo_mock_draws =
     \<lparr>m_branches = 2, m_tags = 0, m_commits = 10, m_files = 25, m_mb = ''3.00'',
      m_error = 2, m_id = ''h1'', m_bytes = 2500000\<rparr>"

definition demo_history :: "HistoryDraws list list" where
  "demo_history =
     [[\<lparr>h_startTime = 0, h_success = True, h_duration = 0, h_run = demo_mock_draws\<rparr>,
       \<lparr>h_startTime = - 7200000, h_success = False, h_duration = 10,
        h_run = demo_mock_draws\<lparr>m_id := ''h2''\<rparr>\<rparr>,
       \<lparr>h_startTime = - 18000000, h_success = True, h_duration = 20,
        h_run = demo_mock_draws\<lparr>m_id := ''h3'', m_tags := 1\<rparr>\<rparr>],
      [\<lparr>h_startTime = 0, h_success = True, h_duration = 30,
        h_run = demo_mock_draws\<lparr>m_id := ''h4''\<rparr>\<rparr>,
       \<lparr>h_startTime = - 3600000, h_success = True, h_duration = 40,
        h_run = demo_mock_draws\<lparr>m_id := ''h5''\<rparr>\<rparr>,
       \<lparr>h_startTime = - 9000000, h_success = False, h_duration = 44,
        h_run = demo_mock_draws\<lparr>m_id := ''h6''\<rparr>\<rparr>]]"

text \<open>
  The page of a first visit, with that history; and the sample session on it, the page
  reloaded before the last callback of the run.
\<close>

definition first_load :: System where
  "first_load = constructor None demo_history (initial_store 0)"

definition reloaded_session :: System where
  "reloaded_session = run_ops (demo_ops @ [Reload None []]) first_load"

text \<open>The state of the sample session before the last callback, and the run it holds.\<close>

definition demo_run :: JobRun where
  "demo_run =
     \<lparr>r_id = ''r1'', jobId = ''j2'', startedAt = 0, completedAt = None, status = SYNCING,
      message = ''Transferred 36 files (3.00 MB)'', stats = None,
      logs = [log_entry 0 ''INFO'' ''Sync job triggered manually'',
              log_entry 500 ''INFO'' ''Connecting to source repository...'',
              log_entry 1700 ''INFO'' ''Fetching remote refs...'',
              log_entry 2500 ''DEBUG'' ''Found 3 branches matching filter'',
              log_entry 3000 ''INFO'' ''Connecting to destination repository...'',
              log_entry 4000 ''INFO'' ''Analyzing changes...'',
              log_entry 5500 ''INFO'' ''Pushing 11 commits...'',
              log_entry 7500 ''INFO'' ''Transferred 36 files (3.00 MB)'']\<rparr>"



section \<open>The live-log view (Jobs.tsx)\<close>

text \<open>
  \<^verbatim>\<open>handleTrigger\<close> sets the live run after the trigger request returned, then every
  message of the log socket goes through \<^verbatim>\<open>ws.onmessage\<close>, a state update
  \<^verbatim>\<open>setLiveRun(prev => ...)\<close>. The state is \<^verbatim>\<open>null\<close> once the view is closed, and
  the update leaves it so. \<open>now\<close> is the \<^verbatim>\<open>new Date()\<close> of the update.
\<close>

definition initial_liveRun :: "string \<Rightarrow> string \<Rightarrow> timestamp \<Rightarrow> JobRun" where
  "initial_liveRun run_id i now =
     \<lparr>r_id = run_id, jobId = i, startedAt = now, completedAt = None, status = SYNCING,
      message = ''Starting sync...'', stats = None, logs = []\<rparr>"

definition onmessage :: "timestamp \<Rightarrow> JobRunLogEntry \<Rightarrow> JobRun option \<Rightarrow> JobRun option" where
  "onmessage now logEntry prev =
     (case prev of
        None \<Rightarrow> None
      | Some p \<Rightarrow>
          (let newLogs = logs p @ [logEntry];
               isComplete = (level logEntry = ''COMPLETE'' \<or> level logEntry = ''FAILED'')
           in Some (p\<lparr>logs := newLogs,
                      message := l_message logEntry,
                      status := (if isComplete
                                 then (if level logEntry = ''COMPLETE'' then SUCCESS else FAILED)
                                 else status p),
                      completedAt := (if isComplete then Some now else completedAt p)\<rparr>)))"

text \<open>The live run after a sequence of messages, each with the time of its update.\<close>

definition observe :: "(timestamp \<times> JobRunLogEntry) list \<Rightarrow> JobRun option \<Rightarrow> JobRun option" where
  "observe evs prev = foldl (\<lambda>st (now, e). onmessage now e st) prev evs"

section \<open>The compare result (api.ts)\<close>

text \<open>
  The response of the compare endpoint and the value the page keeps. The statuses are
  strings: \<open>synced\<close>, \<open>ahead\<close>, \<open>behind\<close>, \<open>diverged\<close>, \<open>new_in_source\<close>,
  \<open>new_in_dest\<close> for a branch, \<open>synced\<close>, \<open>new_in_source\<close>, \<open>new_in_dest\<close>,
  \<open>different\<close> for a tag.
\<close>

record ApiBranch =
  ab_name :: string
  ab_source_commit :: "string option"
  ab_dest_commit :: "string option"
  ab_ahead :: int
  ab_behind :: int
  ab_status :: string

record ApiTag =
  at_name :: string
  at_source_commit :: "string option"
  at_dest_commit :: "string option"
  at_status :: string

record ApiSummary =
  total_branches :: int
  branches_synced :: int
  branches_ahead :: int
  branches_behind :: int
  branches_diverged :: int
  branches_new_in_source :: int
  branches_new_in_dest :: int
  total_tags :: int
  tags_synced :: int
  tags_new_in_source :: int
  tags_new_in_dest :: int
  tags_different :: int

record ApiCompareResult =
  ar_success :: bool
  ar_message :: string
  ar_branches :: "ApiBranch list"
  ar_tags :: "ApiTag list"
  ar_summary :: ApiSummary
  ar_logs :: "JobRunLogEntry list option"

record BranchComparison =
  bc_name :: string
  bc_sourceCommit :: "string option"
  bc_destCommit :: "string option"
  bc_ahead :: int
  bc_behind :: int
  bc_status :: string

record TagComparison =
  tc_name :: string
  tc_sourceCommit :: "string option"
  tc_destCommit :: "string option"
  tc_status :: string

record CompareSummary =
  cs_totalBranches :: int
  cs_branchesSynced :: int
  cs_branchesAhead :: int
  cs_branchesBehind :: int
  cs_branchesDiverged :: int
  cs_branchesNewInSource :: int
  cs_branchesNewInDest :: int
  cs_totalTags :: int
  cs_tagsSynced :: int
  cs_tagsNewInSource :: int
  cs_tagsNewInDest :: int
  cs_tagsDifferent :: int

record CompareResult =
  cr_success :: bool
  cr_message :: string
  cr_branches :: "BranchComparison list"
  cr_tags :: "TagComparison list"
  cr_summary :: CompareSummary
  cr_logs :: "JobRunLogEntry list"

definition mapCompareResultFromApi :: "ApiCompareResult \<Rightarrow> CompareResult" where
  "mapCompareResultFromApi result =
     \<lparr>cr_success = ar_success result,
      cr_message = ar_message result,
      cr_branches = map (\<lambda>b. \<lparr>bc_name = ab_name b,
                                bc_sourceCommit = ab_source_commit b,
                                bc_destCommit = ab_dest_commit b,
                                bc_ahead = ab_ahead b,
                                bc_behind = ab_behind b,
                                bc_status = ab_status b\<rparr>) (ar_branches result),
      cr_tags = map (\<lambda>t. \<lparr>tc_name = at_name t,
                            tc_sourceCommit = at_source_commit t,
                            tc_destCommit = at_dest_commit t,
                            tc_status = at_status t\<rparr>) (ar_tags result),
      cr_summary =
        \<lparr>cs_totalBranches = total_branches (ar_summary result),
         cs_branchesSynced = branches_synced (ar_summary result),
         cs_branchesAhead = branches_ahead (ar_summary result),
         cs_branchesBehind = branches_behind (ar_summary result),
         cs_branchesDiverged = branches_diverged (ar_summary result),
         cs_branchesNewInSource = branches_new_in_source (ar_summary result),
         cs_branchesNewInDest = branches_new_in_dest (ar_summary result),
         cs_totalTags = total_tags (ar_summary result),
         cs_tagsSynced = tags_synced (ar_summary result),
         cs_tagsNewInSource = tags_new_in_source (ar_summary result),
         cs_tagsNewInDest = tags_new_in_dest (ar_summary result),
         cs_tagsDifferent = tags_different (ar_summary result)\<rparr>,
      cr_logs = (case ar_logs result of None \<Rightarrow> [] | Some l \<Rightarrow> l)\<rparr>"

section \<open>The compare engine\<close>

text \<open>
  Modelled from the spec: the RefFilter and the CompareEngine (sections 4.1 and 4.6),
  which run in the backend; the sources hold only the mapping above and the page that
  shows its result. A ref is a name with a commit id. Two things stay parameters:
  \<open>matches p n\<close>, whether the name \<open>n\<close> matches the pattern \<open>p\<close> as a whole, and
  \<open>unique a b\<close>, the number of commits reachable from \<open>b\<close> and not from \<open>a\<close>.
  Where the spec names no status (a name on neither side; different commits with both
  counts zero) the classification gives none and the comparison has no result.
\<close>

type_synonym RefSnapshot = "string \<times> string"

definition RefFilter :: "(string \<Rightarrow> string \<Rightarrow> bool) \<Rightarrow> string \<Rightarrow> RefSnapshot list \<Rightarrow> RefSnapshot list" where
  "RefFilter matches pattern refs = filter (\<lambda>(n, c). matches pattern n) refs"

definition TagFilter :: "(string \<Rightarrow> string \<Rightarrow> bool) \<Rightarrow> string \<Rightarrow> RefSnapshot list \<Rightarrow> RefSnapshot list" where
  "TagFilter matches pattern refs = (if pattern = [] then [] else RefFilter matches pattern refs)"

definition classify_branch :: "string option \<Rightarrow> string option \<Rightarrow> nat \<Rightarrow> nat \<Rightarrow> string option" where
  "classify_branch src dst ahead behind =
     (case (src, dst) of
        (Some a, None) \<Rightarrow> Some ''new_in_source''
      | (None, Some b) \<Rightarrow> Some ''new_in_dest''
      | (None, None) \<Rightarrow> None
      | (Some a, Some b) \<Rightarrow>
          if a = b then Some ''synced''
          else if ahead > 0 \<and> behind = 0 then Some ''ahead''
          else if behind > 0 \<and> ahead = 0 then Some ''behind''
          else if ahead > 0 \<and> behind > 0 then Some ''diverged''
          else None)"

definition classify_tag :: "string option \<Rightarrow> string option \<Rightarrow> string option" where
  "classify_tag src dst =
     (case (src, dst) of
        (Some a, None) \<Rightarrow> Some ''new_in_source''
      | (None, Some b) \<Rightarrow> Some ''new_in_dest''
      | (None, None) \<Rightarrow> None
      | (Some a, Some b) \<Rightarrow> if a = b then Some ''synced'' else Some ''different'')"

definition compare_branch ::
    "(string \<Rightarrow> string \<Rightarrow> nat) \<Rightarrow> RefSnapshot list \<Rightarrow> RefSnapshot list \<Rightarrow> string \<Rightarrow> ApiBranch option" where
  "compare_branch unique src dst n =
     (let s = map_of src n;
          d = map_of dst n;
          ahead = (case (s, d) of (Some a, Some b) \<Rightarrow> if a = b then 0 else unique b a | _ \<Rightarrow> 0);
          behind = (case (s, d) of (Some a, Some b) \<Rightarrow> if a = b then 0 else unique a b | _ \<Rightarrow> 0)
      in map_option
           (\<lambda>st. \<lparr>ab_name = n, ab_source_commit = s, ab_dest_commit = d,
                  ab_ahead = int ahead, ab_behind = int behind, ab_status = st\<rparr>)
           (classify_branch s d ahead behind))"

definition compare_tag :: "RefSnapshot list \<Rightarrow> RefSnapshot list \<Rightarrow> string \<Rightarrow> ApiTag option" where
  "compare_tag src dst n =
     (let s = map_of src n; d = map_of dst n
      in map_option
           (\<lambda>st. \<lparr>at_name = n, at_source_commit = s, at_dest_commit = d, at_status = st\<rparr>)
           (classify_tag s d))"

definition union_names :: "RefSnapshot list \<Rightarrow> RefSnapshot list \<Rightarrow> string list" where
  "union_names src dst = remdups (map fst src @ map fst dst)"

definition count_status :: "('a \<Rightarrow> string) \<Rightarrow> string \<Rightarrow> 'a list \<Rightarrow> int" where
  "count_status st v xs = int (length (filter (\<lambda>x. st x = v) xs))"

definition summarize :: "ApiBranch list \<Rightarrow> ApiTag list \<Rightarrow> ApiSummary" where
  "summarize bs ts =
     \<lparr>total_branches = int (length bs),
      branches_synced = count_status ab_status ''synced'' bs,
      branches_ahead = count_status ab_status ''ahead'' bs,
      branches_behind = count_status ab_status ''behind'' bs,
      branches_diverged = count_status ab_status ''diverged'' bs,
      branches_new_in_source = count_status ab_status ''new_in_source'' bs,
      branches_new_in_dest = count_status ab_status ''new_in_dest'' bs,
      total_tags = int (length ts),
      tags_synced = count_status at_status ''synced'' ts,
      tags_new_in_source = count_status at_status ''new_in_source'' ts,
      tags_new_in_dest = count_status at_status ''new_in_dest'' ts,
      tags_different = count_status at_status ''different'' ts\<rparr>"

text \<open>
  The refs of a repository as the engine enumerates them, and the comparison of two
  repositories under the branch and tag patterns of a job.
\<close>

record Repository =
  heads :: "RefSnapshot list"
  tags :: "RefSnapshot list"

text \<open>All the values of a list, when none is missing.\<close>

definition those_all :: "'a option list \<Rightarrow> 'a list option" where
  "those_all xs = (if None \<in> set xs then None else Some (map the xs))"

definition CompareRepositories ::
    "(string \<Rightarrow> string \<Rightarrow> bool) \<Rightarrow> (string \<Rightarrow> string \<Rightarrow> nat) \<Rightarrow> string \<Rightarrow> string
       \<Rightarrow> Repository \<Rightarrow> Repository \<Rightarrow> (ApiBranch list \<times> ApiTag list \<times> ApiSummary) option" where
  "CompareRepositories matches unique branchPattern tagPattern source dest =
     (let sb = RefFilter matches branchPattern (heads source);
          db = RefFilter matches branchPattern (heads dest);
          st = TagFilter matches tagPattern (tags source);
          dt = TagFilter matches tagPattern (tags dest)
      in case (those_all (map (compare_branch unique sb db) (union_names sb db)),
               those_all (map (compare_tag st dt) (union_names st dt))) of
           (Some bs, Some ts) \<Rightarrow> Some (bs, ts, summarize bs ts)
         | _ \<Rightarrow> None)"

text \<open>
  The response that carries a comparison: the engine's branches, tags and summary, with
  the success flag, message and logs the endpoint adds.
\<close>

definition compare_response ::
    "bool \<Rightarrow> string \<Rightarrow> JobRunLogEntry list option
       \<Rightarrow> ApiBranch list \<times> ApiTag list \<times> ApiSummary \<Rightarrow> ApiCompareResult" where
  "compare_response ok msg lg r =
     \<lparr>ar_success = ok, ar_message = msg, ar_branches = fst r, ar_tags = fst (snd r),
      ar_summary = snd (snd r), ar_logs = lg\<rparr>"

text \<open>
  Scenario B of the spec with two branches added: \<open>main\<close> equal on both sides,
  \<open>develop\<close> with two commits of its own on the source and one on the destination.
\<close>

definition demo_source :: Repository where
  "demo_source =
     \<lparr>heads = [(''main'', ''a1''), (''develop'', ''a2''), (''feature/x'', ''a3'')],
      tags = [(''v1.0.0'', ''abc123'')]\<rparr>"

definition demo_dest :: Repository where
  "demo_dest =
     \<lparr>heads = [(''main'', ''a1''), (''develop'', ''b2'')],
      tags = [(''v1.0.0'', ''def456'')]\<rparr>"

definition demo_unique :: "string \<Rightarrow> string \<Rightarrow> nat" where
  "demo_unique a b = (if a = ''b2'' \<and> b = ''a2'' then 2 else if a = ''a2'' \<and> b = ''b2'' then 1 else 0)"

definition demo_matches :: "string \<Rightarrow> string \<Rightarrow> bool" where
  "demo_matches p n = (p = ''.*'' \<or> (p = ''v.*'' \<and> take 1 n = ''v''))"

definition demo_comparison :: "ApiBranch list \<times> ApiTag list \<times> ApiSummary" where
  "demo_comparison =
     ([\<lparr>ab_name = ''feature/x'', ab_source_commit = Some ''a3'', ab_dest_commit = None,
        ab_ahead = 0, ab_behind = 0, ab_status = ''new_in_source''\<rparr>,
       \<lparr>ab_name = ''main'', ab_source_commit = Some ''a1'', ab_dest_commit = Some ''a1'',
        ab_ahead = 0, ab_behind = 0, ab_status = ''synced''\<rparr>,
       \<lparr>ab_name = ''develop'', ab_source_commit = Some ''a2'', ab_dest_commit = Some ''b2'',
        ab_ahead = 2, ab_behind = 1, ab_status = ''diverged''\<rparr>],
      [\<lparr>at_name = ''v1.0.0'', at_source_commit = Some ''abc123'',
        at_dest_commit = Some ''def456'', at_status = ''different''\<rparr>],
      \<lparr>total_branches = 3, branches_synced = 1, branches_ahead = 0, branches_behind = 0,
       branches_diverged = 1, branches_new_in_source = 1, branches_new_in_dest = 0,
       total_tags = 1, tags_synced = 0, tags_new_in_source = 0, tags_new_in_dest = 0,
       tags_different = 1\<rparr>)"

section \<open>Credentials in URLs and log messages\<close>




definition starts_sep :: "string \<Rightarrow> bool" where
  "starts_sep s = (take 3 s = ''://'')"

fun split_scheme :: "string \<Rightarrow> (string \<times> string) option" where
  "split_scheme [] = None"
| "split_scheme (c # cs) =
     (if starts_sep (c # cs) then Some ([], drop 3 (c # cs))
      else map_option (\<lambda>(a, b). (c # a, b)) (split_scheme cs))"



datatype ResolveError = ConfigError | CredentialError













section \<open>Properties\<close>

subsection \<open>getJobRuns\<close>

text \<open>
  Claim C9. For every job id, getJobRuns returns exactly the runs whose jobId is that
  id, each as often as it is stored and no others, ordered by startedAt descending, runs
  of the same start time in their stored order, and the store is not modified.
\<close>

theorem getJobRuns_filtered_sorted:
  "mset (fst (getJobRuns i s)) = filter_mset (\<lambda>r. jobId r = i) (mset (jobRuns s))
   \<and> sorted_wrt (\<lambda>a b. startedAt a \<ge> startedAt b) (fst (getJobRuns i s))
   \<and> filter (\<lambda>r. startedAt r = t) (fst (getJobRuns i s))
       = filter (\<lambda>r. startedAt r = t) (filter (\<lambda>r. jobId r = i) (jobRuns s))
   \<and> snd (getJobRuns i s) = s"
proof -
  let ?xs = "filter (\<lambda>r. jobId r = i) (jobRuns s)"
  have "sorted (map (\<lambda>r. - startedAt r) (sort_key (\<lambda>r. - startedAt r) ?xs))"
    by (rule sorted_sort_key)
  then have srt: "sorted_wrt (\<lambda>a b. startedAt a \<ge> startedAt b) (sort_key (\<lambda>r. - startedAt r) ?xs)"
    by (simp add: sorted_map)
  have "filter (\<lambda>r. - startedAt r = - t) (sort_key (\<lambda>r. - startedAt r) ?xs)
          = filter (\<lambda>r. - startedAt r = - t) ?xs"
    by (rule sort_key_stable)
  then have stab: "filter (\<lambda>r. startedAt r = t) (sort_key (\<lambda>r. - startedAt r) ?xs)
          = filter (\<lambda>r. startedAt r = t) ?xs"
    by simp
  show ?thesis
    using srt stab by (simp add: getJobRuns_def)
qed

subsection \<open>deleteJob\<close>

text \<open>
  Claim C10. For every job id, after deleteJob no job with that id and no run whose
  jobId is that id remains in the store, while the jobs of every other id and the runs of
  every other job are the stored ones, in their order, and no other field of the store
  changes.
\<close>

theorem deleteJob_removes_job_and_history:
  "i \<notin> j_id ` set (jobs (deleteJob i s))
   \<and> i \<notin> jobId ` set (jobRuns (deleteJob i s))
   \<and> filter (\<lambda>j. j_id j \<noteq> i) (jobs (deleteJob i s)) = filter (\<lambda>j. j_id j \<noteq> i) (jobs s)
   \<and> filter (\<lambda>r. jobId r \<noteq> i) (jobRuns (deleteJob i s)) = filter (\<lambda>r. jobId r \<noteq> i) (jobRuns s)
   \<and> users (deleteJob i s) = users s
   \<and> userPasswords (deleteJob i s) = userPasswords s
   \<and> credentials (deleteJob i s) = credentials s
   \<and> settings (deleteJob i s) = settings s
   \<and> currentUser (deleteJob i s) = currentUser s
   \<and> session_user (deleteJob i s) = session_user s"
  by (auto simp: deleteJob_def)

subsection \<open>login\<close>

text \<open>
  Where no user id is a property name of \<^verbatim>\<open>Object.prototype\<close> and no stored
  password is empty, login succeeds with user \<open>u\<close> exactly when \<open>u\<close> is the first
  user of that name and no password is stored for \<open>u\<close> or the stored one is the
  supplied one; a throw leaves the store unchanged.
\<close>

lemma login_as_stored:
  assumes "\<forall>u \<in> set (users s). u_id u \<notin> set Object_prototype \<and> userPasswords s (u_id u) \<noteq> Some []"
  shows "(fst (login n p s) = Inr u \<longleftrightarrow>
            find (\<lambda>u. username u = n) (users s) = Some u
            \<and> (userPasswords s (u_id u) = None \<or> userPasswords s (u_id u) = p))
       \<and> snd (login n p s) =
           (case fst (login n p s) of
              Inl e \<Rightarrow> s
            | Inr v \<Rightarrow> s\<lparr>currentUser := Some v, session_user := Some v\<rparr>)"
proof (cases "find (\<lambda>u. username u = n) (users s)")
  case None
  then show ?thesis by (simp add: login_def)
next
  case (Some v)
  then have "v \<in> set (users s)" by (auto simp: find_Some_iff)
  then have "u_id v \<notin> set Object_prototype" "userPasswords s (u_id v) \<noteq> Some []"
    using assms by auto
  then show ?thesis using Some
    by (cases p)
       (auto simp: login_def get_property_def truthy_def optional_def Let_def split: option.splits)
qed


subsection \<open>Lists, timers and callbacks\<close>

lemma update_first_none: "\<forall>x \<in> set xs. \<not> P x \<Longrightarrow> update_first P f xs = xs"
  by (induction xs) auto

lemma remove_first_none: "\<forall>x \<in> set xs. \<not> P x \<Longrightarrow> remove_first P xs = xs"
  by (induction xs) auto

lemma store_fire:
  "jobRuns (store (fire rid now e fd sys)) =
     (case find (\<lambda>t. t_runId t = rid) (timers sys) of
        None \<Rightarrow> jobRuns (store sys)
      | Some t \<Rightarrow> update_first (\<lambda>r. r_id r = rid) (callback_run t now e fd) (jobRuns (store sys)))"
proof (cases "find (\<lambda>t. t_runId t = rid) (timers sys)")
  case None
  then show ?thesis by (simp add: fire_def)
next
  case (Some t)
  then have tid: "t_runId t = rid" by (auto dest: find_Some_iff[THEN iffD1])
  show ?thesis
  proof (cases "find (\<lambda>r. r_id r = rid) (jobRuns (store sys))")
    case None
    then have "\<forall>r \<in> set (jobRuns (store sys)). r_id r \<noteq> rid" by (simp add: find_None_iff)
    then have "update_first (\<lambda>r. r_id r = rid) (callback_run t now e fd) (jobRuns (store sys)) = jobRuns (store sys)"
      by (simp add: update_first_none)
    then show ?thesis using Some None tid by (simp add: fire_def callback_def)
  next
    case (Some run)
    then show ?thesis using \<open>find (\<lambda>t. t_runId t = rid) (timers sys) = Some t\<close> tid
      by (simp add: fire_def callback_def Let_def)
  qed
qed

lemma timers_fire:
  "timers (fire rid now e fd sys) = remove_first (\<lambda>t. t_runId t = rid) (timers sys)"
proof (cases "find (\<lambda>t. t_runId t = rid) (timers sys)")
  case None
  then have "\<forall>t \<in> set (timers sys). t_runId t \<noteq> rid" by (simp add: find_None_iff)
  then have "remove_first (\<lambda>t. t_runId t = rid) (timers sys) = timers sys"
    by (simp add: remove_first_none)
  then show ?thesis using None by (simp add: fire_def)
next
  case (Some t)
  then show ?thesis by (simp add: fire_def split: prod.splits)
qed

lemma runs_trigger:
  "jobRuns (store (snd (triggerJob i st d sys))) =
     \<lparr>r_id = d_runId d, jobId = i, startedAt = st, completedAt = None, status = SYNCING,
      message = ''Sync started manually...'', stats = None,
      logs = [log_entry st ''INFO'' ''Sync job triggered manually'']\<rparr> # jobRuns (store sys)"
  by (simp add: triggerJob_def Let_def)

subsection \<open>The sample session\<close>

lemma jobs_fire: "jobs (store (fire rid now e fd sys)) = jobs (store sys)"
  by (simp add: fire_def callback_def Let_def split: option.splits)

lemma jobs_trigger: "jobs (store (snd (triggerJob i st d sys))) = jobs (store sys)"
  by (simp add: triggerJob_def Let_def)

lemma demo_jobs: "jobs (store demo_system) = INITIAL_JOBS 0"
  by (simp add: demo_system_def run_ops_def demo_ops_def jobs_fire jobs_trigger page_load_def
      initial_store_def)

lemma demo_runs: "jobRuns (store demo_system) = [demo_run]"
  by (simp add: demo_system_def run_ops_def demo_ops_def triggerJob_def Let_def page_load_def
      initial_store_def demo_draws_def logMessages_def fire_def callback_def
      callback_run_def is_last_def log_entry_def show_int_def show_nat.simps demo_run_def)

lemma demo_timers:
  "timers demo_system =
     [\<lparr>t_totalDelay = 8000, t_runId = ''r1'', t_jobId = ''j2'',
       t_logMsg = \<lparr>delay = 500, lm_level = ''INFO'', lm_message = ''Sync completed successfully''\<rparr>,
       t_index = 7, t_count = 8, t_success = True, t_startTime = 0\<rparr>]"
  by (simp add: demo_system_def run_ops_def demo_ops_def triggerJob_def Let_def page_load_def
      initial_store_def demo_draws_def logMessages_def fire_def callback_def
      callback_run_def is_last_def log_entry_def show_int_def show_nat.simps)

subsection \<open>Finalisation of a run\<close>

lemma session_runs:
  "timers sys = [] \<Longrightarrow> jobRuns (store (run_ops demo_ops sys)) = demo_run # jobRuns (store sys)"
  by (simp add: run_ops_def demo_ops_def triggerJob_def Let_def demo_draws_def logMessages_def
      fire_def callback_def callback_run_def is_last_def log_entry_def show_int_def
      show_nat.simps demo_run_def)

lemma session_timers:
  "timers sys = [] \<Longrightarrow> map t_index (timers (run_ops demo_ops sys)) = [7]"
  by (simp add: run_ops_def demo_ops_def triggerJob_def Let_def demo_draws_def logMessages_def
      fire_def callback_def callback_run_def is_last_def log_entry_def show_int_def
      show_nat.simps)

lemma reload_runs:
  "jobRuns (store sys) \<noteq> [] \<Longrightarrow> jobRuns (store (reload env draws sys)) = jobRuns (store sys)"
  by (cases env)
     (simp_all add: reload_def constructor_def page_load_def generateInitialJobHistory_def
        applyEnvOverrides_def Let_def)

lemma fires_without_timers:
  "timers sys = [] \<Longrightarrow>
     run_ops (map (\<lambda>(rid, now, endTime, fd). Fire rid now endTime fd) fs) sys = sys"
  by (induction fs) (auto simp: run_ops_def fire_def)

text \<open>
  Claim C7. It fails in the code where the page is reloaded while a run is in flight.
  In the sample session on the page of a first visit the run \<open>r1\<close> is stored, SYNCING
  and without completedAt, and its last callback is waiting. After the reload the
  store holds the run as it was, no callback and no delayed update is waiting, and
  neither the callbacks that would have run nor the delayed updates change anything:
  the run stays SYNCING and is never finalised.
\<close>

theorem reload_leaves_run_syncing:
  "jobRuns (store (run_ops demo_ops first_load)) = demo_run # jobRuns (store first_load)
   \<and> map t_index (timers (run_ops demo_ops first_load)) = [7]
   \<and> jobRuns (store reloaded_session) = demo_run # jobRuns (store first_load)
   \<and> r_id demo_run = ''r1'' \<and> status demo_run = SYNCING \<and> completedAt demo_run = None
   \<and> timers reloaded_session = [] \<and> deferred reloaded_session = []
   \<and> run_ops (map (\<lambda>(rid, now, endTime, fd). Fire rid now endTime fd) fs) reloaded_session
        = reloaded_session
   \<and> apply_op RunDeferred reloaded_session = reloaded_session"
proof -
  have t0: "timers first_load = []"
    by (simp add: first_load_def constructor_def page_load_def)
  have runs: "jobRuns (store (run_ops demo_ops first_load)) = demo_run # jobRuns (store first_load)"
    using t0 by (rule session_runs)
  have rs: "reloaded_session = reload None [] (run_ops demo_ops first_load)"
    by (simp add: reloaded_session_def run_ops_def)
  have t1: "timers reloaded_session = []" and d1: "deferred reloaded_session = []"
    unfolding rs by (simp_all add: reload_def constructor_def page_load_def)
  have "jobRuns (store reloaded_session) = jobRuns (store (run_ops demo_ops first_load))"
    unfolding rs by (rule reload_runs) (simp add: runs)
  then have r1: "jobRuns (store reloaded_session) = demo_run # jobRuns (store first_load)"
    using runs by simp
  have f: "run_ops (map (\<lambda>(rid, now, endTime, fd). Fire rid now endTime fd) fs) reloaded_session
             = reloaded_session"
    using t1 by (rule fires_without_timers)
  have d: "apply_op RunDeferred reloaded_session = reloaded_session"
    using d1 by (simp add: run_deferred_def)
  have "r_id demo_run = ''r1'' \<and> status demo_run = SYNCING \<and> completedAt demo_run = None"
    by (simp add: demo_run_def)
  then show ?thesis using runs session_timers[OF t0] r1 t1 d1 f d by simp
qed

subsection \<open>Two triggers of one job\<close>

text \<open>
  Claim C2. triggerJob does not look for a run in flight. After a trigger of a job,
  getActiveRun finds a SYNCING run of it; a second trigger of the same job, with no
  callback run in between, still returns a new run id, and the store then holds the
  two runs, both SYNCING, two more SYNCING runs of that job than before.
\<close>

theorem triggerJob_twice_two_syncing_runs:
  "map_option status (getActiveRun i (store (run_ops [Trigger i t1 d1] sys))) = Some SYNCING
   \<and> fst (triggerJob i t2 d2 (run_ops [Trigger i t1 d1] sys)) = d_runId d2
   \<and> map (\<lambda>r. (r_id r, jobId r, status r))
        (take 2 (jobRuns (store (run_ops [Trigger i t1 d1, Trigger i t2 d2] sys))))
      = [(d_runId d2, i, SYNCING), (d_runId d1, i, SYNCING)]
   \<and> length (filter (\<lambda>r. jobId r = i \<and> status r = SYNCING)
        (jobRuns (store (run_ops [Trigger i t1 d1, Trigger i t2 d2] sys))))
      = 2 + length (filter (\<lambda>r. jobId r = i \<and> status r = SYNCING) (jobRuns (store sys)))"
  by (simp add: run_ops_def triggerJob_def getActiveRun_def Let_def)

subsection \<open>Tags of a job with an empty tag filter\<close>

text \<open>
  Claim C3. The job \<open>j2\<close> has the empty tag filter; the run of the sample session, once
  its last callback has run, is a SUCCESS whose stats report two tags synced.
\<close>

theorem empty_tag_filter_run_reports_tags:
  "map tagFilter (filter (\<lambda>j. j_id j = ''j2'')
      (jobs (store (apply_op (Fire ''r1'' 8000 8001 demo_final) demo_system)))) = [[]]
   \<and> map (\<lambda>r. (jobId r, status r, map_option tagsSynced (stats r), message r))
        (jobRuns (store (apply_op (Fire ''r1'' 8000 8001 demo_final) demo_system)))
      = [(''j2'', SUCCESS, Some 2, ''Synced 3 branches, 2 tags, 11 commits in 8s'')]"
  by (simp add: jobs_fire demo_jobs INITIAL_JOBS_def store_fire demo_runs demo_timers
      callback_run_def is_last_def complete_run_def Let_def demo_run_def demo_final_def
      show_int_def show_nat.simps)

subsection \<open>Timestamps of a generated run\<close>

text \<open>
  Claim C5. The log of a generated successful run has non-decreasing timestamps exactly
  when its duration is at least the 5800 ms (6000 ms with a tags line) the fixed steps
  add up to. A successful run of five seconds, the shortest the constructor draws, has
  its entry before the last stamped 5800 ms after the start and the last one 5000 ms
  after it; the history of a first page load holds such a run.
\<close>

theorem createMockJobRun_timestamps_decrease:
  "(sorted (map timestamp (logs (createMockJobRun job startTime True durationSecs d)))
      \<longleftrightarrow> (if 0 < m_tags d then 6000 else 5800) \<le> durationSecs * 1000)
   \<and> map timestamp (logs (createMockJobRun ''j1'' 0 True 5 demo_mock_draws))
      = [0, 500, 1700, 2500, 2800, 3800, 5800, 5000]
   \<and> map (\<lambda>r. (r_id r, jobId r, map timestamp (logs r)))
        (take 1 (jobRuns (generateInitialJobHistory demo_history (initial_store 0))))
      = [(''h1'', ''j1'', [0, 500, 1700, 2500, 2800, 3800, 5800, 5000])]"
proof -
  have 1: "sorted (map timestamp (logs (createMockJobRun job startTime True durationSecs d)))
      \<longleftrightarrow> (if 0 < m_tags d then 6000 else 5800) \<le> durationSecs * 1000"
    by (simp add: createMockJobRun_def Let_def log_entry_def) arith
  have 2: "map timestamp (logs (createMockJobRun ''j1'' 0 True 5 demo_mock_draws))
      = [0, 500, 1700, 2500, 2800, 3800, 5800, 5000]"
    by (simp add: createMockJobRun_def demo_mock_draws_def Let_def log_entry_def)
  have s: "startedAt (createMockJobRun i st sc dur dr) = st" for i st sc dur dr
    by (simp add: createMockJobRun_def Let_def)
  have 3: "take 1 (jobRuns (generateInitialJobHistory demo_history (initial_store 0)))
      = [createMockJobRun ''j1'' 0 True 5 demo_mock_draws]"
    by (simp add: generateInitialJobHistory_def initial_store_def INITIAL_JOBS_def
        demo_history_def s)
  have 4: "r_id (createMockJobRun ''j1'' 0 True 5 demo_mock_draws) = ''h1''
      \<and> jobId (createMockJobRun ''j1'' 0 True 5 demo_mock_draws) = ''j1''"
    by (simp add: createMockJobRun_def demo_mock_draws_def Let_def)
  show ?thesis using 1 2 4 unfolding 3 by simp
qed

subsection \<open>The live-log view\<close>

lemma observe_snoc: "observe (evs @ [(now, e)]) prev = onmessage now e (observe evs prev)"
  by (simp add: observe_def)

lemma onmessage_status:
  "map_option status (onmessage now e (Some p)) =
     Some (if level e = ''COMPLETE'' then SUCCESS else if level e = ''FAILED'' then FAILED else status p)"
  by (simp add: onmessage_def Let_def)

lemma observe_Some: "\<exists>r. observe evs (Some p) = Some r"
proof (induction evs rule: rev_induct)
  case Nil
  then show ?case by (simp add: observe_def)
next
  case (snoc x evs)
  then obtain r where "observe evs (Some p) = Some r" by blast
  then show ?case by (cases x) (simp add: observe_snoc onmessage_def Let_def)
qed

text \<open>
  Claim C1. For a run watched through the live-log stream, the status after a message
  is SUCCESS when the level of the message is COMPLETE, FAILED when it is FAILED, and
  the status it had before for every other level; so after any sequence of messages the
  status is given by the last message of level COMPLETE or FAILED, and a run that has
  received none is in the status it started with.
\<close>

theorem live_status_follows_final_level:
  "map_option status (onmessage now e (Some p)) =
      Some (if level e = ''COMPLETE'' then SUCCESS
            else if level e = ''FAILED'' then FAILED else status p)
   \<and> map_option status (observe (evs @ [(now, e)]) (Some p)) =
      (if level e = ''COMPLETE'' then Some SUCCESS
       else if level e = ''FAILED'' then Some FAILED
       else map_option status (observe evs (Some p)))
   \<and> map_option status (observe evs (Some p)) =
      Some (case find (\<lambda>(t, x). level x = ''COMPLETE'' \<or> level x = ''FAILED'') (rev evs) of
              None \<Rightarrow> status p
            | Some (t, x) \<Rightarrow> if level x = ''COMPLETE'' then SUCCESS else FAILED)"
proof -
  have step: "map_option status (observe (es @ [(t, x)]) (Some p)) =
      (if level x = ''COMPLETE'' then Some SUCCESS
       else if level x = ''FAILED'' then Some FAILED
       else map_option status (observe es (Some p)))" for es t x
  proof -
    obtain r where r: "observe es (Some p) = Some r" using observe_Some by blast
    show ?thesis by (simp add: observe_snoc r onmessage_status)
  qed
  have all: "map_option status (observe es (Some p)) =
      Some (case find (\<lambda>(t, x). level x = ''COMPLETE'' \<or> level x = ''FAILED'') (rev es) of
              None \<Rightarrow> status p
            | Some (t, x) \<Rightarrow> if level x = ''COMPLETE'' then SUCCESS else FAILED)" for es
  proof (induction es rule: rev_induct)
    case Nil
    then show ?case by (simp add: observe_def)
  next
    case (snoc a es)
    obtain t x where a: "a = (t, x)" by (cases a)
    show ?case unfolding a step using snoc by simp
  qed
  show ?thesis using onmessage_status step all by blast
qed


subsection \<open>Statuses of a comparison\<close>

lemma those_all_mem: "those_all xs = Some ys \<Longrightarrow> y \<in> set ys \<Longrightarrow> Some y \<in> set xs"
  by (auto simp: those_all_def split: if_splits) (metis option.collapse)

lemma compare_branch_status:
  assumes "compare_branch unique src dst n = Some a"
  shows "(ab_status a = ''synced'' \<longleftrightarrow> ab_source_commit a = ab_dest_commit a)
       \<and> (ab_status a = ''new_in_source'' \<longleftrightarrow> ab_source_commit a \<noteq> None \<and> ab_dest_commit a = None)
       \<and> (ab_status a = ''new_in_dest'' \<longleftrightarrow> ab_source_commit a = None \<and> ab_dest_commit a \<noteq> None)
       \<and> (ab_source_commit a \<noteq> None \<and> ab_dest_commit a \<noteq> None
            \<and> ab_source_commit a \<noteq> ab_dest_commit a \<longrightarrow>
              (ab_status a = ''ahead'' \<longleftrightarrow> 0 < ab_ahead a \<and> ab_behind a = 0)
            \<and> (ab_status a = ''behind'' \<longleftrightarrow> 0 < ab_behind a \<and> ab_ahead a = 0)
            \<and> (ab_status a = ''diverged'' \<longleftrightarrow> 0 < ab_ahead a \<and> 0 < ab_behind a))"
  using assms
  by (cases "map_of src n"; cases "map_of dst n")
     (auto simp: compare_branch_def classify_branch_def Let_def split: if_splits)

lemma compare_tag_status:
  assumes "compare_tag src dst n = Some a"
  shows "(at_status a = ''synced'' \<longleftrightarrow> at_source_commit a = at_dest_commit a)
       \<and> (at_status a = ''new_in_source'' \<longleftrightarrow> at_source_commit a \<noteq> None \<and> at_dest_commit a = None)
       \<and> (at_status a = ''new_in_dest'' \<longleftrightarrow> at_source_commit a = None \<and> at_dest_commit a \<noteq> None)
       \<and> (at_source_commit a \<noteq> None \<and> at_dest_commit a \<noteq> None
            \<and> at_source_commit a \<noteq> at_dest_commit a \<longrightarrow> at_status a = ''different'')"
  using assms
  by (cases "map_of src n"; cases "map_of dst n")
     (auto simp: compare_tag_def classify_tag_def Let_def split: if_splits)

text \<open>
  Claim C4. In the CompareResult the page keeps for a comparison, a branch or tag has
  status synced if and only if its source and destination commits are equal, status
  new_in_source if and only if it has a source commit and no destination commit, and
  new_in_dest if and only if it has a destination commit and no source commit; a branch
  with two different commits is ahead iff ahead > 0 and behind = 0, behind iff behind > 0
  and ahead = 0, diverged iff both counts are positive; a tag with two different commits
  is different.
\<close>

theorem compare_status_by_commits:
  assumes "CompareRepositories matches unique bp tp source dest = Some r"
  shows "(\<forall>b \<in> set (cr_branches (mapCompareResultFromApi (compare_response ok msg lg r))).
            (bc_status b = ''synced'' \<longleftrightarrow> bc_sourceCommit b = bc_destCommit b)
          \<and> (bc_status b = ''new_in_source'' \<longleftrightarrow> bc_sourceCommit b \<noteq> None \<and> bc_destCommit b = None)
          \<and> (bc_status b = ''new_in_dest'' \<longleftrightarrow> bc_sourceCommit b = None \<and> bc_destCommit b \<noteq> None)
          \<and> (bc_sourceCommit b \<noteq> None \<and> bc_destCommit b \<noteq> None
               \<and> bc_sourceCommit b \<noteq> bc_destCommit b \<longrightarrow>
                 (bc_status b = ''ahead'' \<longleftrightarrow> 0 < bc_ahead b \<and> bc_behind b = 0)
               \<and> (bc_status b = ''behind'' \<longleftrightarrow> 0 < bc_behind b \<and> bc_ahead b = 0)
               \<and> (bc_status b = ''diverged'' \<longleftrightarrow> 0 < bc_ahead b \<and> 0 < bc_behind b)))
       \<and> (\<forall>t \<in> set (cr_tags (mapCompareResultFromApi (compare_response ok msg lg r))).
            (tc_status t = ''synced'' \<longleftrightarrow> tc_sourceCommit t = tc_destCommit t)
          \<and> (tc_status t = ''new_in_source'' \<longleftrightarrow> tc_sourceCommit t \<noteq> None \<and> tc_destCommit t = None)
          \<and> (tc_status t = ''new_in_dest'' \<longleftrightarrow> tc_sourceCommit t = None \<and> tc_destCommit t \<noteq> None)
          \<and> (tc_sourceCommit t \<noteq> None \<and> tc_destCommit t \<noteq> None
               \<and> tc_sourceCommit t \<noteq> tc_destCommit t \<longrightarrow> tc_status t = ''different''))"
proof -
  let ?sb = "RefFilter matches bp (heads source)"
  let ?db = "RefFilter matches bp (heads dest)"
  let ?st = "TagFilter matches tp (tags source)"
  let ?dt = "TagFilter matches tp (tags dest)"
  obtain bs ts where r: "r = (bs, ts, summarize bs ts)"
    and bs: "those_all (map (compare_branch unique ?sb ?db) (union_names ?sb ?db)) = Some bs"
    and ts: "those_all (map (compare_tag ?st ?dt) (union_names ?st ?dt)) = Some ts"
    using assms by (auto simp: CompareRepositories_def Let_def split: option.splits)
  have B: "\<exists>n. compare_branch unique ?sb ?db n = Some a" if "a \<in> set bs" for a
    using those_all_mem[OF bs that] by auto
  have T: "\<exists>n. compare_tag ?st ?dt n = Some a" if "a \<in> set ts" for a
    using those_all_mem[OF ts that] by auto
  have 1: "\<forall>b \<in> set (cr_branches (mapCompareResultFromApi (compare_response ok msg lg r))).
            (bc_status b = ''synced'' \<longleftrightarrow> bc_sourceCommit b = bc_destCommit b)
          \<and> (bc_status b = ''new_in_source'' \<longleftrightarrow> bc_sourceCommit b \<noteq> None \<and> bc_destCommit b = None)
          \<and> (bc_status b = ''new_in_dest'' \<longleftrightarrow> bc_sourceCommit b = None \<and> bc_destCommit b \<noteq> None)
          \<and> (bc_sourceCommit b \<noteq> None \<and> bc_destCommit b \<noteq> None
               \<and> bc_sourceCommit b \<noteq> bc_destCommit b \<longrightarrow>
                 (bc_status b = ''ahead'' \<longleftrightarrow> 0 < bc_ahead b \<and> bc_behind b = 0)
               \<and> (bc_status b = ''behind'' \<longleftrightarrow> 0 < bc_behind b \<and> bc_ahead b = 0)
               \<and> (bc_status b = ''diverged'' \<longleftrightarrow> 0 < bc_ahead b \<and> 0 < bc_behind b))"
  proof
    fix b assume "b \<in> set (cr_branches (mapCompareResultFromApi (compare_response ok msg lg r)))"
    then obtain a where a: "a \<in> set bs"
      and b: "b = \<lparr>bc_name = ab_name a, bc_sourceCommit = ab_source_commit a,
                   bc_destCommit = ab_dest_commit a, bc_ahead = ab_ahead a,
                   bc_behind = ab_behind a, bc_status = ab_status a\<rparr>"
      by (auto simp: mapCompareResultFromApi_def compare_response_def r)
    from B[OF a] obtain n where "compare_branch unique ?sb ?db n = Some a" by blast
    from compare_branch_status[OF this] show
      "(bc_status b = ''synced'' \<longleftrightarrow> bc_sourceCommit b = bc_destCommit b)
          \<and> (bc_status b = ''new_in_source'' \<longleftrightarrow> bc_sourceCommit b \<noteq> None \<and> bc_destCommit b = None)
          \<and> (bc_status b = ''new_in_dest'' \<longleftrightarrow> bc_sourceCommit b = None \<and> bc_destCommit b \<noteq> None)
          \<and> (bc_sourceCommit b \<noteq> None \<and> bc_destCommit b \<noteq> None
               \<and> bc_sourceCommit b \<noteq> bc_destCommit b \<longrightarrow>
                 (bc_status b = ''ahead'' \<longleftrightarrow> 0 < bc_ahead b \<and> bc_behind b = 0)
               \<and> (bc_status b = ''behind'' \<longleftrightarrow> 0 < bc_behind b \<and> bc_ahead b = 0)
               \<and> (bc_status b = ''diverged'' \<longleftrightarrow> 0 < bc_ahead b \<and> 0 < bc_behind b))"
      unfolding b by simp
  qed
  have 2: "\<forall>t \<in> set (cr_tags (mapCompareResultFromApi (compare_response ok msg lg r))).
            (tc_status t = ''synced'' \<longleftrightarrow> tc_sourceCommit t = tc_destCommit t)
          \<and> (tc_status t = ''new_in_source'' \<longleftrightarrow> tc_sourceCommit t \<noteq> None \<and> tc_destCommit t = None)
          \<and> (tc_status t = ''new_in_dest'' \<longleftrightarrow> tc_sourceCommit t = None \<and> tc_destCommit t \<noteq> None)
          \<and> (tc_sourceCommit t \<noteq> None \<and> tc_destCommit t \<noteq> None
               \<and> tc_sourceCommit t \<noteq> tc_destCommit t \<longrightarrow> tc_status t = ''different'')"
  proof
    fix t assume "t \<in> set (cr_tags (mapCompareResultFromApi (compare_response ok msg lg r)))"
    then obtain a where a: "a \<in> set ts"
      and t: "t = \<lparr>tc_name = at_name a, tc_sourceCommit = at_source_commit a,
                   tc_destCommit = at_dest_commit a, tc_status = at_status a\<rparr>"
      by (auto simp: mapCompareResultFromApi_def compare_response_def r)
    from T[OF a] obtain n where "compare_tag ?st ?dt n = Some a" by blast
    from compare_tag_status[OF this] show
      "(tc_status t = ''synced'' \<longleftrightarrow> tc_sourceCommit t = tc_destCommit t)
          \<and> (tc_status t = ''new_in_source'' \<longleftrightarrow> tc_sourceCommit t \<noteq> None \<and> tc_destCommit t = None)
          \<and> (tc_status t = ''new_in_dest'' \<longleftrightarrow> tc_sourceCommit t = None \<and> tc_destCommit t \<noteq> None)
          \<and> (tc_sourceCommit t \<noteq> None \<and> tc_destCommit t \<noteq> None
               \<and> tc_sourceCommit t \<noteq> tc_destCommit t \<longrightarrow> tc_status t = ''different'')"
      unfolding t by simp
  qed
  show ?thesis using 1 2 by blast
qed

lemma demo_comparison_eval:
  "CompareRepositories demo_matches demo_unique ''.*'' ''v.*'' demo_source demo_dest
     = Some demo_comparison"
  by (simp add: CompareRepositories_def RefFilter_def TagFilter_def union_names_def
      those_all_def compare_branch_def compare_tag_def classify_branch_def classify_tag_def
      summarize_def count_status_def demo_matches_def demo_unique_def demo_source_def
      demo_dest_def demo_comparison_def Let_def)

theorem compare_status_by_commits_witness:
  "CompareRepositories demo_matches demo_unique ''.*'' ''v.*'' demo_source demo_dest
     = Some demo_comparison
   \<and> cr_branches (mapCompareResultFromApi (compare_response True [] None demo_comparison)) ! 2
       = \<lparr>bc_name = ''develop'', bc_sourceCommit = Some ''a2'', bc_destCommit = Some ''b2'',
          bc_ahead = 2, bc_behind = 1, bc_status = ''diverged''\<rparr>
   \<and> cr_tags (mapCompareResultFromApi (compare_response True [] None demo_comparison)) ! 0
       = \<lparr>tc_name = ''v1.0.0'', tc_sourceCommit = Some ''abc123'',
          tc_destCommit = Some ''def456'', tc_status = ''different''\<rparr>
   \<and> (bc_status (cr_branches (mapCompareResultFromApi
          (compare_response True [] None demo_comparison)) ! 2) = ''diverged'')
       = (0 < bc_ahead (cr_branches (mapCompareResultFromApi
            (compare_response True [] None demo_comparison)) ! 2)
          \<and> 0 < bc_behind (cr_branches (mapCompareResultFromApi
            (compare_response True [] None demo_comparison)) ! 2))"
proof -
  let ?r = "mapCompareResultFromApi (compare_response True [] None demo_comparison)"
  have b: "cr_branches ?r ! 2
       = \<lparr>bc_name = ''develop'', bc_sourceCommit = Some ''a2'', bc_destCommit = Some ''b2'',
          bc_ahead = 2, bc_behind = 1, bc_status = ''diverged''\<rparr>"
    by (simp add: mapCompareResultFromApi_def compare_response_def demo_comparison_def)
  have t: "cr_tags ?r ! 0
       = \<lparr>tc_name = ''v1.0.0'', tc_sourceCommit = Some ''abc123'',
          tc_destCommit = Some ''def456'', tc_status = ''different''\<rparr>"
    by (simp add: mapCompareResultFromApi_def compare_response_def demo_comparison_def)
  have m: "cr_branches ?r ! 2 \<in> set (cr_branches ?r)"
    by (rule nth_mem) (simp add: mapCompareResultFromApi_def compare_response_def demo_comparison_def)
  from compare_status_by_commits[OF demo_comparison_eval, of True "[]" None] m
  have "(bc_status (cr_branches ?r ! 2) = ''diverged'')
          = (0 < bc_ahead (cr_branches ?r ! 2) \<and> 0 < bc_behind (cr_branches ?r ! 2))"
    unfolding b by simp
  then show ?thesis using demo_comparison_eval b t by simp
qed


subsection \<open>Sanitized URLs and messages\<close>



lemma split_scheme_sound: "split_scheme u = Some (a, b) \<Longrightarrow> u = a @ ''://'' @ b"
proof (induction u arbitrary: a)
  case Nil
  then show ?case by simp
next
  case (Cons c cs)
  show ?case
  proof (cases "starts_sep (c # cs)")
    case True
    then have "take 3 (c # cs) = ''://''" by (simp only: starts_sep_def)
    moreover from True Cons.prems have "a = []" "b = drop 3 (c # cs)" by auto
    ultimately show ?thesis by (metis append_Nil append_take_drop_id)
  next
    case False
    with Cons.prems obtain a' where "split_scheme cs = Some (a', b)" "a = c # a'"
      by (auto split: option.splits)
    then show ?thesis using Cons.IH by simp
  qed
qed


lemma starts_sep_sep: "starts_sep (''://'' @ x)"
  by (simp add: starts_sep_def)



















end
